theory Spec2Isabelle
  imports Complex_Main "HOL-Library.Sublist" "HOL-Library.Multiset"
begin

section \<open>The Python values the services compute with\<close>

text \<open>
  The services of the repository are plain Python over strings, lists, dictionaries and
  floats. This section fixes how the built-in operations they call are read here.
  Strings are \<^typ>\<open>string\<close>, that is lists of 8-bit characters: the model covers ASCII text
  (case mapping, white space and digits outside ASCII are not represented).
\<close>

subsection \<open>Strings\<close>

text \<open>\<^verbatim>\<open>str.isspace\<close> on one ASCII character: TAB, LF, VT, FF, CR, the four
  separators 0x1C..0x1F and the blank.\<close>

definition is_space :: "char \<Rightarrow> bool" where
  "is_space c = (let n = (of_char c :: nat) in (9 \<le> n \<and> n \<le> 13) \<or> (28 \<le> n \<and> n \<le> 32))"

text \<open>\<^verbatim>\<open>s.strip()\<close> and \<^verbatim>\<open>s.strip(chars)\<close>.\<close>

definition py_strip :: "string \<Rightarrow> string" where
  "py_strip s = rev (dropWhile is_space (rev (dropWhile is_space s)))"

definition py_strip_chars :: "char set \<Rightarrow> string \<Rightarrow> string" where
  "py_strip_chars cs s = rev (dropWhile (\<lambda>c. c \<in> cs) (rev (dropWhile (\<lambda>c. c \<in> cs) s)))"

text \<open>\<^verbatim>\<open>s.lower()\<close> on ASCII.\<close>

definition lower_char :: "char \<Rightarrow> char" where
  "lower_char c = (let n = (of_char c :: nat) in if 65 \<le> n \<and> n \<le> 90 then char_of (n + 32) else c)"

definition py_lower :: "string \<Rightarrow> string" where
  "py_lower s = map lower_char s"

text \<open>\<^verbatim>\<open>s.split()\<close>: the maximal runs of characters that are not white space. The first
  argument is the word read so far.\<close>

fun words_from :: "string \<Rightarrow> string \<Rightarrow> string list" where
  "words_from w [] = (if w = [] then [] else [w])"
| "words_from w (c # cs) =
     (if is_space c then (if w = [] then words_from [] cs else w # words_from [] cs)
      else words_from (w @ [c]) cs)"

definition py_split_ws :: "string \<Rightarrow> string list" where
  "py_split_ws s = words_from [] s"

text \<open>\<^verbatim>\<open>s.split(sep)\<close> for a non-empty separator: the pieces between the leftmost
  non-overlapping occurrences of \<open>sep\<close>. The second argument is the piece read so far.
  (Python raises \<^verbatim>\<open>ValueError\<close> on an empty separator; the services only pass the
  literals \<^verbatim>\<open>'\n\n'\<close> and \<^verbatim>\<open>'/'\<close>, and with an empty separator this function
  returns the whole string as one piece.)\<close>

function split_from :: "string \<Rightarrow> string \<Rightarrow> string \<Rightarrow> string list" where
  "split_from sep cur [] = [cur]"
| "split_from sep cur (c # cs) =
     (if sep \<noteq> [] \<and> prefix sep (c # cs)
      then cur # split_from sep [] (drop (length sep) (c # cs))
      else split_from sep (cur @ [c]) cs)"
  by pat_completeness auto
termination
  by (relation "measure (\<lambda>(sep, cur, s). length s)") auto

definition py_split :: "string \<Rightarrow> string \<Rightarrow> string list" where
  "py_split sep s = split_from sep [] s"

text \<open>\<^verbatim>\<open>sep.join(xs)\<close>.\<close>

fun py_join :: "string \<Rightarrow> string list \<Rightarrow> string" where
  "py_join sep [] = []"
| "py_join sep [x] = x"
| "py_join sep (x # y # ys) = x @ sep @ py_join sep (y # ys)"

text \<open>\<^verbatim>\<open>t in s\<close> on strings: \<open>t\<close> occurs in \<open>s\<close> as a contiguous piece.\<close>

fun py_in :: "string \<Rightarrow> string \<Rightarrow> bool" where
  "py_in t [] = (t = [])"
| "py_in t (c # cs) = (prefix t (c # cs) \<or> py_in t cs)"

text \<open>\<^verbatim>\<open>xs[i:]\<close> for any integer \<open>i\<close>: a negative index counts from the end, and both
  ends are clamped.\<close>

definition py_slice_from :: "int \<Rightarrow> 'a list \<Rightarrow> 'a list" where
  "py_slice_from i xs =
     (let n = int (length xs); j = (if i < 0 then max 0 (n + i) else i) in drop (nat j) xs)"

text \<open>The newline and the double quote, which the prompts below contain.\<close>

definition NL :: string where
  "NL = [CHR 0x0A]"

definition DQ :: string where
  "DQ = [CHR 0x22]"

subsection \<open>Floats\<close>

text \<open>
  A Python float is a finite number, one of the two infinities, or a NaN. A finite
  float is read as the real number it denotes. Rounding to binary64 is not modelled:
  the services only compare floats and store them, so a decimal literal stands for its
  exact value (and a literal beyond the binary64 range stays finite here).
\<close>

datatype pyfloat = Fin real | PInf | NInf | NaN

text \<open>The comparisons \<^verbatim>\<open>a < b\<close> and \<^verbatim>\<open>a > b\<close>: false whenever a NaN is involved.\<close>

definition float_lt :: "pyfloat \<Rightarrow> pyfloat \<Rightarrow> bool" where
  "float_lt a b =
     (case a of
        NaN \<Rightarrow> False
      | PInf \<Rightarrow> False
      | NInf \<Rightarrow> (case b of NaN \<Rightarrow> False | NInf \<Rightarrow> False | _ \<Rightarrow> True)
      | Fin x \<Rightarrow> (case b of NaN \<Rightarrow> False | NInf \<Rightarrow> False | PInf \<Rightarrow> True | Fin y \<Rightarrow> x < y))"

definition float_gt :: "pyfloat \<Rightarrow> pyfloat \<Rightarrow> bool" where
  "float_gt a b = float_lt b a"



text \<open>
  \<^verbatim>\<open>float(s)\<close> on a string, after the grammar of the language reference:
  \<^verbatim>\<open>
  floatvalue  ::= [sign] (floatnumber | infinity | nan)
  floatnumber ::= number [exponent]
  number      ::= [digitpart] "." digitpart | digitpart ["."]
  exponent    ::= ("e" | "E") [sign] digitpart
  digitpart   ::= digit (["_"] digit)*
  infinity    ::= "Infinity" | "inf"          nan ::= "nan"
  \<close>
  with white space stripped at both ends and the two words read in any case.
  \<open>None\<close> is the \<^verbatim>\<open>ValueError\<close> of a string that is no float.
\<close>

definition is_digit :: "char \<Rightarrow> bool" where
  "is_digit c = (let n = (of_char c :: nat) in 48 \<le> n \<and> n \<le> 57)"

definition digit_val :: "char \<Rightarrow> nat" where
  "digit_val c = (of_char c :: nat) - 48"

text \<open>The rest of a digitpart after its first digit: the digits read, and what follows.\<close>

fun digits_rest :: "string \<Rightarrow> nat list \<times> string" where
  "digits_rest [] = ([], [])"
| "digits_rest [c] = (if is_digit c then ([digit_val c], []) else ([], [c]))"
| "digits_rest (c # d # cs) =
     (if is_digit c then (case digits_rest (d # cs) of (ds, r) \<Rightarrow> (digit_val c # ds, r))
      else if c = CHR ''_'' \<and> is_digit d
        then (case digits_rest cs of (ds, r) \<Rightarrow> (digit_val d # ds, r))
      else ([], c # d # cs))"

definition digitpart :: "string \<Rightarrow> (nat list \<times> string) option" where
  "digitpart s =
     (case s of
        [] \<Rightarrow> None
      | c # cs \<Rightarrow>
          if is_digit c then (case digits_rest cs of (ds, r) \<Rightarrow> Some (digit_val c # ds, r))
          else None)"

text \<open>An optional digitpart: no digits when there is none.\<close>

definition opt_digitpart :: "string \<Rightarrow> nat list \<times> string" where
  "opt_digitpart s = (case digitpart s of None \<Rightarrow> ([], s) | Some p \<Rightarrow> p)"

definition nat_of_digits :: "nat list \<Rightarrow> nat" where
  "nat_of_digits ds = foldl (\<lambda>acc d. 10 * acc + d) 0 ds"

text \<open>An optional sign: whether it is a minus, and what follows.\<close>

definition opt_sign :: "string \<Rightarrow> bool \<times> string" where
  "opt_sign s =
     (case s of
        c # cs \<Rightarrow> if c = CHR ''-'' then (True, cs) else if c = CHR ''+'' then (False, cs) else (False, s)
      | [] \<Rightarrow> (False, s))"

text \<open>The exponent and the end of the string: the power of ten, if the rest is an
  exponent or empty.\<close>

definition exponent_end :: "string \<Rightarrow> int option" where
  "exponent_end s =
     (case s of
        [] \<Rightarrow> Some 0
      | c # cs \<Rightarrow>
          if c = CHR ''e'' \<or> c = CHR ''E'' then
            (case opt_sign cs of
               (neg, r) \<Rightarrow>
                 (case digitpart r of
                    Some (ds, []) \<Rightarrow> Some (if neg then - int (nat_of_digits ds) else int (nat_of_digits ds))
                  | _ \<Rightarrow> None))
          else None)"

definition scale10 :: "real \<Rightarrow> int \<Rightarrow> real" where
  "scale10 m e = (if 0 \<le> e then m * 10 ^ nat e else m / 10 ^ nat (- e))"

text \<open>A floatnumber: its value, if the whole string is one.\<close>

definition floatnumber :: "string \<Rightarrow> real option" where
  "floatnumber s =
     (case opt_digitpart s of
        (ip, r) \<Rightarrow>
          (case r of
             c # r' \<Rightarrow>
               if c = CHR ''.'' then
                 (case opt_digitpart r' of
                    (fp, r'') \<Rightarrow>
                      if ip = [] \<and> fp = [] then None
                      else (case exponent_end r'' of
                              None \<Rightarrow> None
                            | Some e \<Rightarrow>
                                Some (scale10 (real (nat_of_digits ip)
                                        + real (nat_of_digits fp) / 10 ^ length fp) e)))
               else if ip = [] then None
               else (case exponent_end r of
                       None \<Rightarrow> None
                     | Some e \<Rightarrow> Some (scale10 (real (nat_of_digits ip)) e))
           | [] \<Rightarrow> if ip = [] then None else Some (real (nat_of_digits ip))))"

definition py_float :: "string \<Rightarrow> pyfloat option" where
  "py_float s =
     (case opt_sign (py_strip s) of
        (neg, r) \<Rightarrow>
          if py_lower r = ''inf'' \<or> py_lower r = ''infinity'' then Some (if neg then NInf else PInf)
          else if py_lower r = ''nan'' then Some NaN
          else (case floatnumber r of
                  None \<Rightarrow> None
                | Some x \<Rightarrow> Some (Fin (if neg then - x else x))))"

subsection \<open>Sorting\<close>

text \<open>
  \<^verbatim>\<open>xs.sort(key=k, reverse=True)\<close> and \<^verbatim>\<open>sorted(xs, key=k, reverse=True)\<close>: the
  stable sort by descending key, which compares keys with \<^verbatim>\<open><\<close> only. An element
  moves behind a later one only if its key is smaller. On keys that \<^verbatim>\<open><\<close> orders
  totally this is the one result a stable sort can give. With NaN keys the result of
  Python's sort depends on the runs it finds, and it is this function's result on some
  lists only: every general statement about the order below assumes that no key is a
  NaN, and where a sort of NaN keys is evaluated, the text says why Python returns the
  same list there.
\<close>

fun insert_desc :: "('a \<Rightarrow> pyfloat) \<Rightarrow> 'a \<Rightarrow> 'a list \<Rightarrow> 'a list" where
  "insert_desc k x [] = [x]"
| "insert_desc k x (y # ys) =
     (if float_lt (k x) (k y) then y # insert_desc k x ys else x # y # ys)"

definition py_sort_desc :: "('a \<Rightarrow> pyfloat) \<Rightarrow> 'a list \<Rightarrow> 'a list" where
  "py_sort_desc k xs = foldr (insert_desc k) xs []"

text \<open>A list is in descending order of its keys when no element is smaller than a
  later one.\<close>

fun sorted_desc :: "('a \<Rightarrow> pyfloat) \<Rightarrow> 'a list \<Rightarrow> bool" where
  "sorted_desc k [] = True"
| "sorted_desc k (x # xs) = (list_all (\<lambda>y. \<not> float_lt (k x) (k y)) xs \<and> sorted_desc k xs)"

section \<open>Errors\<close>

text \<open>
  An exception is a value. \<open>ExternalError\<close> stands for whatever a library or a backend
  outside the repository raises (a network failure, a rejected API key, a malformed
  reply); the other constructors are the exceptions the repository raises itself or that
  Python raises on its behalf.
\<close>

datatype error =
    ValueError string
  | RuntimeError string
  | TypeError string
  | AttributeError string
  | HTTPException nat string
  | ExternalError string

section \<open>\<^verbatim>\<open>memory_service.py\<close>\<close>

datatype message = HumanMessage string | AIMessage string

fun message_content :: "message \<Rightarrow> string" where
  "message_content (HumanMessage c) = c"
| "message_content (AIMessage c) = c"

fun is_human :: "message \<Rightarrow> bool" where
  "is_human (HumanMessage c) = True"
| "is_human (AIMessage c) = False"

text \<open>The dictionary \<^verbatim>\<open>self.conversations\<close>, from thread ids to message lists.\<close>

type_synonym conversations = "string \<rightharpoonup> message list"

definition add_message :: "conversations \<Rightarrow> string \<Rightarrow> message \<Rightarrow> conversations" where
  "add_message conv tid m =
     (let conv1 = (if conv tid = None then conv(tid \<mapsto> []) else conv)
      in conv1(tid \<mapsto> (case conv1 tid of None \<Rightarrow> [] | Some ms \<Rightarrow> ms) @ [m]))"

text \<open>\<^verbatim>\<open>last_k\<close> is \<open>None\<close> by default; \<^verbatim>\<open>if last_k\<close> is also false for 0.\<close>

definition get_messages :: "conversations \<Rightarrow> string \<Rightarrow> int option \<Rightarrow> message list" where
  "get_messages conv tid last_k =
     (let messages = (case conv tid of None \<Rightarrow> [] | Some ms \<Rightarrow> ms)
      in case last_k of
           None \<Rightarrow> messages
         | Some k \<Rightarrow> if k = 0 then messages else py_slice_from (- k) messages)"

definition clear_thread :: "conversations \<Rightarrow> string \<Rightarrow> conversations" where
  "clear_thread conv tid = (if conv tid \<noteq> None then conv(tid := None) else conv)"

definition thread_exists :: "conversations \<Rightarrow> string \<Rightarrow> bool" where
  "thread_exists conv tid = (conv tid \<noteq> None)"

section \<open>\<^verbatim>\<open>retrieval_service.py\<close>\<close>

text \<open>A LangChain document: its text and its metadata dictionary.\<close>

record document =
  page_content :: string
  metadata :: "(string \<times> string) list"

definition metadata_get :: "(string \<times> string) list \<Rightarrow> string \<Rightarrow> string \<Rightarrow> string" where
  "metadata_get md key dflt = (case map_of md key of None \<Rightarrow> dflt | Some v \<Rightarrow> v)"

text \<open>A retriever object is read as what its \<^verbatim>\<open>invoke\<close> does with a query.\<close>

type_synonym retriever = "string \<Rightarrow> error + document list"


text \<open>The attributes of a \<^verbatim>\<open>RetrievalPipeline\<close>.\<close>

record ('em, 'vs) pipeline =
  vectorstore :: "'vs option"
  keyword_retriever :: "retriever option"
  ensemble_retriever :: "retriever option"
  documents :: "document list"
  embeddings :: "'em option"


definition reset :: "('em, 'vs) pipeline \<Rightarrow> ('em, 'vs) pipeline" where
  "reset self =
     self\<lparr>vectorstore := None, keyword_retriever := None, ensemble_retriever := None,
          documents := [], embeddings := None\<rparr>"


definition has_documents :: "('em, 'vs) pipeline \<Rightarrow> bool" where
  "has_documents self =
     (length (documents self) > 0 \<and> vectorstore self \<noteq> None \<and> ensemble_retriever self \<noteq> None)"

text \<open>An entry of the list that \<^verbatim>\<open>retrieve\<close> returns: a dictionary with the keys
  \<^verbatim>\<open>content\<close>, \<^verbatim>\<open>source\<close> and \<^verbatim>\<open>score\<close>.\<close>

record retrieved_doc =
  content :: string
  source :: string
  score :: pyfloat

definition research_terms :: "string list" where
  "research_terms =
     [''study'', ''research'', ''method'', ''result'', ''conclusion'',
      ''analysis'', ''finding'', ''data'', ''experiment'']"

text \<open>The list comprehension over \<^verbatim>\<open>content.split('\n\n')\<close>.\<close>

definition paragraphs_of :: "string \<Rightarrow> string list" where
  "paragraphs_of text = map py_strip (filter (\<lambda>p. py_strip p \<noteq> []) (py_split (NL @ NL) text))"

text \<open>The condition of the inner loop on one paragraph.\<close>

definition paragraph_relevant :: "string \<Rightarrow> string \<Rightarrow> bool" where
  "paragraph_relevant question paragraph =
     (let question_words = set (py_split_ws (py_lower question)) in
      card (question_words \<inter> set (py_split_ws (py_lower paragraph))) > 1
      \<or> list_ex (\<lambda>term. py_in term (py_lower paragraph)) research_terms)"

text \<open>The inner loop: \<open>relevant_parts\<close> grows by the paragraphs that pass.\<close>

fun collect_parts :: "string \<Rightarrow> string list \<Rightarrow> string list \<Rightarrow> string list" where
  "collect_parts question [] relevant_parts = relevant_parts"
| "collect_parts question (paragraph # ps) relevant_parts =
     (if paragraph_relevant question paragraph
      then collect_parts question ps (relevant_parts @ [paragraph])
      else collect_parts question ps relevant_parts)"

text \<open>The loop over the retrieved documents: \<open>relevant_content\<close> grows by one entry
  for each document with a relevant part.\<close>

fun collect_content :: "string \<Rightarrow> document list \<Rightarrow> retrieved_doc list \<Rightarrow> retrieved_doc list" where
  "collect_content question [] relevant_content = relevant_content"
| "collect_content question (doc # docs) relevant_content =
     (let sc = Fin 1.0;
          src = metadata_get (metadata doc) ''source'' ''Unknown source'';
          relevant_parts = collect_parts question (paragraphs_of (page_content doc)) []
      in if relevant_parts \<noteq> []
         then collect_content question docs
                (relevant_content @
                   [\<lparr>content = py_join (NL @ NL) relevant_parts, source = src, score = sc\<rparr>])
         else collect_content question docs relevant_content)"

definition not_ready_message :: string where
  "not_ready_message = ''No documents are currently loaded. Please upload documents first.''"

definition retrieve :: "('em, 'vs) pipeline \<Rightarrow> string \<Rightarrow> error + retrieved_doc list" where
  "retrieve self question =
     (if \<not> has_documents self then Inl (ValueError not_ready_message)
      else case ensemble_retriever self of
             None \<Rightarrow> Inl (AttributeError ''invoke'')
           | Some r \<Rightarrow>
               (case r question of
                  Inl e \<Rightarrow> Inl e
                | Inr docs \<Rightarrow>
                    (let relevant_content = collect_content question docs [] in
                     if relevant_content = [] then
                       (case docs of
                          [] \<Rightarrow> Inr relevant_content
                        | first_doc # rest \<Rightarrow>
                            Inr [\<lparr>content = take 1000 (page_content first_doc),
                                  source = metadata_get (metadata first_doc) ''source'' ''Unknown source'',
                                  score = Fin 1.0\<rparr>])
                     else Inr relevant_content)))"

text \<open>\<^verbatim>\<open>query\<close> is an alias of \<^verbatim>\<open>retrieve\<close>.\<close>

definition pipeline_query :: "('em, 'vs) pipeline \<Rightarrow> string \<Rightarrow> error + retrieved_doc list" where
  "pipeline_query self question = retrieve self question"

section \<open>\<^verbatim>\<open>llm_service.py\<close>\<close>

text \<open>
  The two chat models are clients of remote services. What a call returns may change
  from one call to the next, so a call takes the state of the world outside the
  process (\<open>'w\<close>) and returns the new one with its outcome: the text of the reply, or
  the exception.
\<close>

datatype chat_message = SystemMessage string | UserMessage string

datatype config_value = Number real | Callbacks | Tags "string list"

type_synonym config = "(string \<times> config_value) list"

type_synonym 'w chat_model = "chat_message list \<Rightarrow> config \<Rightarrow> 'w \<Rightarrow> (error + string) \<times> 'w"

text \<open>The constructors of the two clients, which may raise (a missing API key).\<close>

record 'w chat_clients =
  ChatTogether :: "error + 'w chat_model"
  ChatOpenAI :: "error + 'w chat_model"

text \<open>The attributes \<^verbatim>\<open>_primary_llm\<close> and \<^verbatim>\<open>_backup_llm\<close> of an \<^verbatim>\<open>LLMService\<close>.\<close>

record 'w llm_service =
  primary_llm :: "'w chat_model option"
  backup_llm :: "'w chat_model option"

definition system_prompt :: string where
  "system_prompt =
     ''You are a Research Paper Agent, build for research paper chatbot.'' @ NL @
     ''Always maintain a professional, academic tone while being helpful and clear.''"

definition setup_llm :: "'w chat_clients \<Rightarrow> 'w llm_service \<Rightarrow> 'w llm_service" where
  "setup_llm clients self =
     (let s1 = self\<lparr>primary_llm := (case ChatTogether clients of Inl e \<Rightarrow> None | Inr m \<Rightarrow> Some m)\<rparr>
      in s1\<lparr>backup_llm := (case ChatOpenAI clients of Inl e \<Rightarrow> None | Inr m \<Rightarrow> Some m)\<rparr>)"

text \<open>The tail of the property \<^verbatim>\<open>llm\<close>: the backup model, or the \<^verbatim>\<open>RuntimeError\<close>.\<close>

definition llm_fallback :: "'w llm_service \<Rightarrow> error + 'w chat_model" where
  "llm_fallback self =
     (case backup_llm self of
        Some b \<Rightarrow> Inr b
      | None \<Rightarrow> Inl (RuntimeError ''No LLM service available''))"

text \<open>The property \<^verbatim>\<open>llm\<close>: the model to call, after a test call to the primary one.\<close>

definition llm ::
  "'w chat_clients \<Rightarrow> 'w llm_service \<Rightarrow> 'w \<Rightarrow> (error + 'w chat_model) \<times> 'w llm_service \<times> 'w" where
  "llm clients self w =
     (let s1 = (if primary_llm self = None \<and> backup_llm self = None
                then setup_llm clients self else self)
      in case primary_llm s1 of
           Some p \<Rightarrow>
             (case p [UserMessage ''test''] [] w of
                (Inr reply, w1) \<Rightarrow> (Inr p, s1, w1)
              | (Inl e, w1) \<Rightarrow> (llm_fallback s1, s1, w1))
         | None \<Rightarrow> (llm_fallback s1, s1, w))"

text \<open>\<^verbatim>\<open>invoke\<close>: every exception inside is logged and raised again.\<close>

definition invoke ::
  "'w chat_clients \<Rightarrow> string \<Rightarrow> config option \<Rightarrow> 'w llm_service \<times> 'w
     \<Rightarrow> (error + string) \<times> 'w llm_service \<times> 'w" where
  "invoke clients prompt cfg sw =
     (case sw of
        (self, w) \<Rightarrow>
          (let messages = [SystemMessage system_prompt, UserMessage prompt];
               invoke_config = (case cfg of None \<Rightarrow> [] | Some c \<Rightarrow> c)
           in case llm clients self w of
                (Inl e, s1, w1) \<Rightarrow> (Inl e, s1, w1)
              | (Inr current_llm, s1, w1) \<Rightarrow>
                  (case current_llm messages invoke_config w1 of
                     (Inl e, w2) \<Rightarrow> (Inl e, s1, w2)
                   | (Inr response_text, w2) \<Rightarrow> (Inr response_text, s1, w2))))"

section \<open>The services a request handler reaches\<close>

text \<open>
  The routers and the graph service call \<^verbatim>\<open>llm_service.invoke\<close>, the two structured
  chains built on a chat model of their own, \<^verbatim>\<open>uuid.uuid4\<close>, the formatting of a
  float with two decimals and \<^verbatim>\<open>str\<close> of an exception. They are the fields of one
  record; \<open>'w\<close> is the state of everything they depend on (for \<^verbatim>\<open>llm_service.invoke\<close>
  as modelled above: the service object and the world of its backends).
\<close>

datatype query_type = Memory | Vectorstore | General

record RouteQuery =
  route_query_type :: query_type
  route_reason :: string

record MemoryResponse =
  response_type :: string
  response_content :: string

record 'w services =
  llm_invoke :: "string \<Rightarrow> config option \<Rightarrow> 'w \<Rightarrow> (error + string) \<times> 'w"
  router_chain :: "string \<Rightarrow> 'w \<Rightarrow> (error + RouteQuery) \<times> 'w"
  memory_chain :: "string \<Rightarrow> string \<Rightarrow> config \<Rightarrow> 'w \<Rightarrow> (error + MemoryResponse) \<times> 'w"
  uuid4 :: "'w \<Rightarrow> string \<times> 'w"
  format_2f :: "pyfloat \<Rightarrow> string"
  exc_str :: "error \<Rightarrow> string"

section \<open>\<^verbatim>\<open>graph_service.py\<close>\<close>

text \<open>
  A graded document is a dictionary with the keys \<^verbatim>\<open>content\<close>, \<^verbatim>\<open>source\<close> and
  \<^verbatim>\<open>grade\<close>; the loop of \<^verbatim>\<open>grade_documents\<close> adds \<^verbatim>\<open>original_score\<close>, its exception
  handler keeps \<^verbatim>\<open>score\<close> instead.
\<close>

record graded_doc =
  graded_content :: string
  graded_source :: string
  grade :: pyfloat
  original_score :: "pyfloat option"
  kept_score :: "pyfloat option"

text \<open>The state dictionary that the stages pass on. \<^verbatim>\<open>relevant_docs\<close> is a key only
  after \<^verbatim>\<open>generate_answer\<close>.\<close>

record graph_state =
  state_question :: string
  state_documents :: "retrieved_doc list"
  state_rewritten_question :: "string option"
  state_graded_docs :: "graded_doc list option"
  state_answer :: "string option"
  state_thread_id :: string
  state_relevant_docs :: "graded_doc list option"

definition rewrite_prompt :: "string \<Rightarrow> string" where
  "rewrite_prompt q =
     py_join NL
       [''Rewrite this research question to be more specific and focused: '' @ DQ @ q @ DQ,
        ''            '',
        ''            Rules:'',
        ''            1. Keep it concise'',
        ''            2. Use technical terminology'',
        ''            3. Focus on specific aspects'',
        ''            4. Maintain clarity'',
        ''            '',
        ''            Return ONLY the rewritten question, nothing else.'']"

definition rewrite_question :: "'w services \<Rightarrow> graph_state \<Rightarrow> 'w \<Rightarrow> graph_state \<times> 'w" where
  "rewrite_question sv state w =
     (case llm_invoke sv (rewrite_prompt (state_question state)) (Some [(''temperature'', Number 0.3)]) w of
        (Inr rewritten, w1) \<Rightarrow>
          (state\<lparr>state_rewritten_question :=
                    Some (py_strip (py_strip_chars {CHR 0x22} (py_strip rewritten)))\<rparr>, w1)
      | (Inl e, w1) \<Rightarrow>
          (state\<lparr>state_rewritten_question := Some (state_question state)\<rparr>, w1))"

definition grade_prompt :: "string \<Rightarrow> retrieved_doc \<Rightarrow> string" where
  "grade_prompt q doc =
     py_join NL
       [''Rate the relevance of this document excerpt to the question: '' @ DQ @ q @ DQ,
        [],
        ''                Document content:'',
        ''                '' @ take 1000 (content doc) @ ''...'',
        [],
        ''                Rate from 0-1 where:'',
        ''                0: Not relevant at all'',
        ''                0.5: Somewhat relevant'',
        ''                1: Highly relevant'',
        [],
        ''                Return ONLY the numerical score (e.g., 0.7).'']"

text \<open>The inner \<^verbatim>\<open>try\<close> of the grading loop: the grade of one document, given the
  reply of the model.\<close>

definition parse_grade :: "string \<Rightarrow> retrieved_doc \<Rightarrow> pyfloat" where
  "parse_grade response doc =
     (case py_float (py_strip response) of Some g \<Rightarrow> g | None \<Rightarrow> score doc)"

text \<open>The grading loop: \<open>graded_docs\<close> grows by one entry for each document; an
  exception of \<^verbatim>\<open>llm_service.invoke\<close> leaves the loop.\<close>

fun grade_loop ::
  "'w services \<Rightarrow> string \<Rightarrow> retrieved_doc list \<Rightarrow> graded_doc list \<Rightarrow> 'w
     \<Rightarrow> (error + graded_doc list) \<times> 'w" where
  "grade_loop sv q [] graded_docs w = (Inr graded_docs, w)"
| "grade_loop sv q (doc # docs) graded_docs w =
     (case llm_invoke sv (grade_prompt q doc) (Some [(''temperature'', Number 0.1)]) w of
        (Inl e, w1) \<Rightarrow> (Inl e, w1)
      | (Inr response, w1) \<Rightarrow>
          grade_loop sv q docs
            (graded_docs @
               [\<lparr>graded_content = content doc, graded_source = source doc,
                 grade = parse_grade response doc,
                 original_score = Some (score doc), kept_score = None\<rparr>])
            w1)"

text \<open>The entry of the exception handler: the document with its score as the grade.\<close>

definition score_as_grade :: "retrieved_doc \<Rightarrow> graded_doc" where
  "score_as_grade doc =
     \<lparr>graded_content = content doc, graded_source = source doc, grade = score doc,
      original_score = None, kept_score = Some (score doc)\<rparr>"

definition grade_documents :: "'w services \<Rightarrow> graph_state \<Rightarrow> 'w \<Rightarrow> graph_state \<times> 'w" where
  "grade_documents sv state w =
     (let q = (case state_rewritten_question state of
                 None \<Rightarrow> state_question state
               | Some r \<Rightarrow> if r = [] then state_question state else r)
      in case grade_loop sv q (state_documents state) [] w of
           (Inr graded_docs, w1) \<Rightarrow>
             (state\<lparr>state_graded_docs := Some (py_sort_desc grade graded_docs)\<rparr>, w1)
         | (Inl e, w1) \<Rightarrow>
             (state\<lparr>state_graded_docs := Some (map score_as_grade (state_documents state))\<rparr>, w1))"

text \<open>The selection at the head of \<^verbatim>\<open>generate_answer\<close>: the documents graded above
  0.5, or the first two of the list if there is none.\<close>

definition select_relevant :: "graded_doc list \<Rightarrow> graded_doc list" where
  "select_relevant graded_docs =
     (let relevant_docs = filter (\<lambda>doc. float_gt (grade doc) (Fin 0.5)) graded_docs
      in if relevant_docs = [] then take 2 graded_docs else relevant_docs)"

definition answer_context :: "'w services \<Rightarrow> graded_doc list \<Rightarrow> string" where
  "answer_context sv relevant_docs =
     py_join (NL @ NL)
       (map (\<lambda>doc. ''From '' @ graded_source doc @ '' (relevance: '' @ format_2f sv (grade doc)
                    @ ''):'' @ NL @ graded_content doc) relevant_docs)"

definition answer_prompt :: "string \<Rightarrow> string \<Rightarrow> string" where
  "answer_prompt q ctx =
     py_join NL
       [''Based on these research paper excerpts, answer this question: '' @ DQ @ q @ DQ,
        [],
        ''            Context from papers:'',
        ''            '' @ ctx,
        [],
        ''            Instructions:'',
        ''            1. Only use information from the provided excerpts'',
        ''            2. Cite specific papers when making claims'',
        ''            3. If information is incomplete or unclear, acknowledge it'',
        ''            4. Focus on key findings and conclusions'',
        ''            5. Be concise but thorough'',
        ''            6. Include clear references to papers'',
        [],
        ''            Answer:'']"

text \<open>\<^verbatim>\<open>generate_answer\<close> raises again whatever is raised inside; iterating over a
  \<^verbatim>\<open>graded_docs\<close> that is still \<^verbatim>\<open>None\<close> is a \<^verbatim>\<open>TypeError\<close>.\<close>

definition generate_answer ::
  "'w services \<Rightarrow> graph_state \<Rightarrow> 'w \<Rightarrow> (error + graph_state) \<times> 'w" where
  "generate_answer sv state w =
     (case state_graded_docs state of
        None \<Rightarrow> (Inl (TypeError ''NoneType object is not iterable''), w)
      | Some graded_docs \<Rightarrow>
          (let relevant_docs = select_relevant graded_docs;
               prompt = answer_prompt (state_question state) (answer_context sv relevant_docs)
           in case llm_invoke sv prompt
                     (Some [(''temperature'', Number 0.2), (''max_tokens'', Number 1000)]) w of
                (Inl e, w1) \<Rightarrow> (Inl e, w1)
              | (Inr a, w1) \<Rightarrow>
                  (Inr (state\<lparr>state_answer := Some a, state_relevant_docs := Some relevant_docs\<rparr>), w1)))"

definition process_state ::
  "'w services \<Rightarrow> graph_state \<Rightarrow> 'w \<Rightarrow> (error + graph_state) \<times> 'w" where
  "process_state sv state w =
     (case rewrite_question sv state w of
        (s1, w1) \<Rightarrow>
          (case grade_documents sv s1 w1 of
             (s2, w2) \<Rightarrow> generate_answer sv s2 w2))"

section \<open>\<^verbatim>\<open>query_router.py\<close>\<close>

record QueryRequest =
  request_question :: string
  request_thread_id :: "string option"

record DocumentReference =
  ref_source :: string
  relevance_score :: pyfloat
  snippet :: string

record QueryResponse =
  answer :: string
  references :: "DocumentReference list"
  thread_id :: string

text \<open>The module-level singletons a handler works on: the conversations of
  \<^verbatim>\<open>memory_service\<close>, the \<^verbatim>\<open>retrieval_pipeline\<close>, and the state behind the services.\<close>

record ('em, 'vs, 'w) app =
  memory :: conversations
  retrieval_pipeline :: "('em, 'vs) pipeline"
  world :: 'w

text \<open>The dictionary that the two simple handlers return.\<close>

record handler_result =
  result_response :: string
  result_thread_id :: string
  result_source :: string
  result_response_type :: "string option"

definition history_line :: "message \<Rightarrow> string" where
  "history_line m = (if is_human m then ''User'' else ''Assistant'') @ '': '' @ message_content m"

definition handle_memory_question ::
  "'w services \<Rightarrow> string \<Rightarrow> string \<Rightarrow> string list option \<Rightarrow> ('em, 'vs, 'w) app
     \<Rightarrow> (error + handler_result) \<times> ('em, 'vs, 'w) app" where
  "handle_memory_question sv question tid tags ap =
     (let messages = get_messages (memory ap) tid None;
          history = py_join NL (map history_line messages);
          tg = (case tags of
                  None \<Rightarrow> [''memory'', ''history'', ''conversation'']
                | Some t \<Rightarrow> if t = [] then [''memory'', ''history'', ''conversation''] else t)
      in case memory_chain sv question history [(''callbacks'', Callbacks), (''tags'', Tags tg)] (world ap) of
           (Inl e, w1) \<Rightarrow> (Inl e, ap\<lparr>world := w1\<rparr>)
         | (Inr memory_result, w1) \<Rightarrow>
             (let m1 = add_message (memory ap) tid (HumanMessage question);
                  m2 = add_message m1 tid (AIMessage (response_content memory_result))
              in (Inr \<lparr>result_response = response_content memory_result, result_thread_id = tid,
                        result_source = ''memory'',
                        result_response_type = Some (response_type memory_result)\<rparr>,
                  ap\<lparr>world := w1, memory := m2\<rparr>)))"

definition handle_general_question ::
  "'w services \<Rightarrow> string \<Rightarrow> string \<Rightarrow> string list option \<Rightarrow> ('em, 'vs, 'w) app
     \<Rightarrow> (error + handler_result) \<times> ('em, 'vs, 'w) app" where
  "handle_general_question sv question tid tags ap =
     (let tg = (case tags of
                  None \<Rightarrow> [''general'', ''llm'', ''direct'']
                | Some t \<Rightarrow> if t = [] then [''general'', ''llm'', ''direct''] else t)
      in case llm_invoke sv question (Some [(''callbacks'', Callbacks), (''tags'', Tags tg)]) (world ap) of
           (Inl e, w1) \<Rightarrow> (Inl e, ap\<lparr>world := w1\<rparr>)
         | (Inr response, w1) \<Rightarrow>
             (let m1 = add_message (memory ap) tid (HumanMessage question);
                  m2 = add_message m1 tid (AIMessage response)
              in (Inr \<lparr>result_response = response, result_thread_id = tid,
                        result_source = ''general'', result_response_type = None\<rparr>,
                  ap\<lparr>world := w1, memory := m2\<rparr>)))"

text \<open>\<^verbatim>\<open>s.split('/')[-1]\<close>: the list of pieces is never empty.\<close>

definition basename :: "string \<Rightarrow> string" where
  "basename s = last (py_split ''/'' s)"

definition fallback_context :: "retrieved_doc list \<Rightarrow> string" where
  "fallback_context docs =
     py_join (NL @ NL) (map (\<lambda>doc. ''From '' @ source doc @ '':'' @ NL @ content doc) docs)"

definition focused_question :: "string \<Rightarrow> string" where
  "focused_question question =
     ''Based ONLY on the provided research papers, answer the following question: '' @ question @ NL @
     ''        Please provide a clear and concise answer, focusing on key findings and conclusions.''"

definition fallback_prompt :: "string \<Rightarrow> retrieved_doc list \<Rightarrow> string" where
  "fallback_prompt question docs =
     ''Context from papers:'' @ NL @ fallback_context docs @ NL @ NL @
     ''Question: '' @ focused_question question"

definition fallback_reference :: "retrieved_doc \<Rightarrow> DocumentReference" where
  "fallback_reference doc =
     \<lparr>ref_source = basename (source doc), relevance_score = score doc,
      snippet = take 500 (content doc)\<rparr>"

definition handle_research_fallback ::
  "'w services \<Rightarrow> string \<Rightarrow> retrieved_doc list \<Rightarrow> string \<Rightarrow> ('em, 'vs, 'w) app
     \<Rightarrow> (error + QueryResponse) \<times> ('em, 'vs, 'w) app" where
  "handle_research_fallback sv question docs tid ap =
     (case llm_invoke sv (fallback_prompt question docs) (Some [(''temperature'', Number 0.2)]) (world ap) of
        (Inl e, w1) \<Rightarrow> (Inl e, ap\<lparr>world := w1\<rparr>)
      | (Inr a, w1) \<Rightarrow>
          (let refs = map fallback_reference docs;
               m1 = add_message (memory ap) tid (HumanMessage question);
               m2 = add_message m1 tid (AIMessage a)
           in (Inr \<lparr>answer = a, references = refs, thread_id = tid\<rparr>,
               ap\<lparr>world := w1, memory := m2\<rparr>)))"

definition graded_reference :: "graded_doc \<Rightarrow> DocumentReference" where
  "graded_reference doc =
     \<lparr>ref_source = basename (graded_source doc), relevance_score = grade doc,
      snippet = take 500 (graded_content doc)\<rparr>"

definition no_documents_answer :: string where
  "no_documents_answer =
     ''I cannot answer research questions as no documents have been loaded. Please upload some research papers first.''"

definition nothing_found_answer :: string where
  "nothing_found_answer = ''I couldn'' @ [CHR 0x27] @ ''t find any relevant information in the documents.''"

definition default_answer :: string where
  "default_answer = ''Could not generate an answer from the documents.''"

text \<open>An exception caught by a handler of \<^verbatim>\<open>query\<close> becomes the HTTP error 400 with
  \<^verbatim>\<open>str\<close> of the exception as its detail.\<close>

definition http_400 :: "'w services \<Rightarrow> error \<Rightarrow> error" where
  "http_400 sv e = HTTPException 400 (exc_str sv e)"

text \<open>The innermost \<^verbatim>\<open>try\<close> of the \<^verbatim>\<open>vectorstore\<close> branch: the graph, and on any
  exception of it the fallback handler, whose own exception leaves the block. (When
  \<^verbatim>\<open>process_state\<close> returns, the keys \<^verbatim>\<open>answer\<close> and \<^verbatim>\<open>relevant_docs\<close> hold the answer
  and the selection, so the defaults of the two \<^verbatim>\<open>get\<close> calls are never used.)\<close>

definition graph_or_fallback ::
  "'w services \<Rightarrow> string \<Rightarrow> string \<Rightarrow> retrieved_doc list \<Rightarrow> graph_state
     \<Rightarrow> ('em, 'vs, 'w) app \<Rightarrow> (error + QueryResponse) \<times> ('em, 'vs, 'w) app" where
  "graph_or_fallback sv question tid retrieved_docs state ap =
     (case process_state sv state (world ap) of
        (Inr graph_result, w1) \<Rightarrow>
          (let refs = (case state_relevant_docs graph_result of
                         None \<Rightarrow> []
                       | Some rd \<Rightarrow> map graded_reference rd);
               a = (case state_answer graph_result of None \<Rightarrow> default_answer | Some t \<Rightarrow> t);
               m1 = add_message (memory ap) tid (HumanMessage question);
               m2 = add_message m1 tid (AIMessage a)
           in (Inr \<lparr>answer = a, references = py_sort_desc relevance_score refs, thread_id = tid\<rparr>,
               ap\<lparr>world := w1, memory := m2\<rparr>))
      | (Inl graph_error, w1) \<Rightarrow>
          handle_research_fallback sv question retrieved_docs tid (ap\<lparr>world := w1\<rparr>))"

text \<open>The \<^verbatim>\<open>vectorstore\<close> branch with its own \<^verbatim>\<open>try\<close>.\<close>

definition vectorstore_branch ::
  "'w services \<Rightarrow> string \<Rightarrow> string \<Rightarrow> ('em, 'vs, 'w) app
     \<Rightarrow> (error + QueryResponse) \<times> ('em, 'vs, 'w) app" where
  "vectorstore_branch sv question tid ap =
     (if \<not> has_documents (retrieval_pipeline ap)
      then (Inr \<lparr>answer = no_documents_answer, references = [], thread_id = tid\<rparr>, ap)
      else
        (let state = \<lparr>state_question = question, state_documents = [],
                      state_rewritten_question = None, state_graded_docs = None,
                      state_answer = None, state_thread_id = tid, state_relevant_docs = None\<rparr>
         in case retrieve (retrieval_pipeline ap) question of
              Inl e \<Rightarrow> (Inl (http_400 sv e), ap)
            | Inr retrieved_docs \<Rightarrow>
                if retrieved_docs = []
                then (Inr \<lparr>answer = nothing_found_answer, references = [], thread_id = tid\<rparr>, ap)
                else
                  (let state1 = state\<lparr>state_documents :=
                                         map (\<lambda>doc. \<lparr>content = content doc, source = source doc,
                                                      score = score doc\<rparr>) retrieved_docs\<rparr>
                   in case graph_or_fallback sv question tid retrieved_docs state1 ap of
                        (Inl e, ap1) \<Rightarrow> (Inl (http_400 sv e), ap1)
                      | (Inr r, ap1) \<Rightarrow> (Inr r, ap1))))"

text \<open>The endpoint \<^verbatim>\<open>POST /api/query\<close>.\<close>

definition query ::
  "'w services \<Rightarrow> QueryRequest \<Rightarrow> ('em, 'vs, 'w) app
     \<Rightarrow> (error + QueryResponse) \<times> ('em, 'vs, 'w) app" where
  "query sv request ap =
     (case (case request_thread_id request of
              None \<Rightarrow> uuid4 sv (world ap)
            | Some t \<Rightarrow> if t = [] then uuid4 sv (world ap) else (t, world ap)) of
        (tid, w0) \<Rightarrow>
          (case router_chain sv (request_question request) w0 of
             (Inl e, w1) \<Rightarrow> (Inl (http_400 sv e), ap\<lparr>world := w1\<rparr>)
           | (Inr route, w1) \<Rightarrow>
               (let ap1 = ap\<lparr>world := w1\<rparr> in
                case route_query_type route of
                  Memory \<Rightarrow>
                    (case handle_memory_question sv (request_question request) tid None ap1 of
                       (Inl e, ap2) \<Rightarrow> (Inl (http_400 sv e), ap2)
                     | (Inr result, ap2) \<Rightarrow>
                         (Inr \<lparr>answer = result_response result, references = [], thread_id = tid\<rparr>, ap2))
                | General \<Rightarrow>
                    (case handle_general_question sv (request_question request) tid None ap1 of
                       (Inl e, ap2) \<Rightarrow> (Inl (http_400 sv e), ap2)
                     | (Inr result, ap2) \<Rightarrow>
                         (Inr \<lparr>answer = result_response result, references = [], thread_id = tid\<rparr>, ap2))
                | Vectorstore \<Rightarrow>
                    (case vectorstore_branch sv (request_question request) tid ap1 of
                       (Inl e, ap2) \<Rightarrow> (Inl (http_400 sv e), ap2)
                     | (Inr r, ap2) \<Rightarrow> (Inr r, ap2)))))"

text \<open>The endpoint \<^verbatim>\<open>POST /api/thread/reset\<close>.\<close>

record reset_result =
  reset_status :: string
  reset_message :: string
  reset_thread_id :: string

definition reset_thread :: "string \<Rightarrow> conversations \<Rightarrow> (error + reset_result) \<times> conversations" where
  "reset_thread tid conv =
     (if \<not> thread_exists conv tid
      then (Inl (HTTPException 404 (''Thread '' @ tid @ '' not found'')), conv)
      else (Inr \<lparr>reset_status = ''success'', reset_message = ''Thread reset successfully'',
                 reset_thread_id = tid\<rparr>,
            clear_thread conv tid))"

text \<open>The endpoint \<^verbatim>\<open>POST /api/vectordb/reset\<close>.\<close>

record vectordb_result =
  vectordb_status :: string
  vectordb_message :: string
  document_count :: nat
  reported_has_documents :: bool

definition reset_vectordb :: "('em, 'vs) pipeline \<Rightarrow> (error + vectordb_result) \<times> ('em, 'vs) pipeline" where
  "reset_vectordb p =
     (Inr \<lparr>vectordb_status = ''success'', vectordb_message = ''Vector database reset successfully'',
            document_count = 0, reported_has_documents = False\<rparr>,
      reset p)"

text \<open>The endpoint \<^verbatim>\<open>GET /api/thread/status/{thread_id}\<close>.\<close>

record thread_status =
  status_thread_id :: string
  message_count :: nat
  has_history :: bool
  status_messages :: "(string \<times> string) list"

definition get_thread_status :: "string \<Rightarrow> conversations \<Rightarrow> error + thread_status" where
  "get_thread_status tid conv =
     (let messages = get_messages conv tid None
      in Inr \<lparr>status_thread_id = tid,
              message_count = length messages,
              has_history = (length messages > 0),
              status_messages =
                map (\<lambda>msg. (if is_human msg then ''human'' else ''ai'', message_content msg)) messages\<rparr>)"

section \<open>The claims in the words of the specification\<close>

text \<open>
  The definitions of this section are not the code: they say what the specification
  says (which paragraphs qualify, which chunks are selected, when a backend can serve a
  request), they give a name to an expression of the source that a theorem has to
  mention, and they fix the small inputs on which the theorems are evaluated.
\<close>

subsection \<open>Snippets of a retrieved chunk\<close>

text \<open>A paragraph qualifies when it shares more than one word with the question or
  contains one of the research keywords.\<close>

definition qualifies :: "string \<Rightarrow> string \<Rightarrow> bool" where
  "qualifies question p =
     (card (set (py_split_ws (py_lower question)) \<inter> set (py_split_ws (py_lower p))) > 1
      \<or> (\<exists>t \<in> set research_terms. py_in t (py_lower p)))"

definition kept_paragraphs :: "string \<Rightarrow> document \<Rightarrow> string list" where
  "kept_paragraphs question doc = filter (qualifies question) (paragraphs_of (page_content doc))"

text \<open>The entry of a chunk: its qualifying paragraphs, joined by blank lines.\<close>

definition snippet_entry :: "string \<Rightarrow> document \<Rightarrow> retrieved_doc" where
  "snippet_entry question doc =
     \<lparr>content = py_join (NL @ NL) (kept_paragraphs question doc),
      source = metadata_get (metadata doc) ''source'' ''Unknown source'',
      score = Fin 1\<rparr>"

text \<open>The entries of the chunks that have a qualifying paragraph, in retrieval order.\<close>

definition snippet_entries :: "string \<Rightarrow> document list \<Rightarrow> retrieved_doc list" where
  "snippet_entries question docs =
     map (snippet_entry question) (filter (\<lambda>doc. kept_paragraphs question doc \<noteq> []) docs)"

text \<open>The entry that stands in when every chunk is dropped.\<close>

definition introduction_entry :: "document \<Rightarrow> retrieved_doc" where
  "introduction_entry doc =
     \<lparr>content = take 1000 (page_content doc),
      source = metadata_get (metadata doc) ''source'' ''Unknown source'',
      score = Fin 1\<rparr>"

subsection \<open>A small index\<close>

definition chunk_a :: document where
  "chunk_a =
     \<lparr>page_content = ''Thanks to all colleagues.'' @ NL @ NL @ ''This study measures attention.''
                       @ NL @ NL @ ''Self attention heads matter.'',
      metadata = [(''source'', ''docs/a.pdf'')]\<rparr>"

definition chunk_b :: document where
  "chunk_b = \<lparr>page_content = ''Nothing of interest here.'', metadata = []\<rparr>"

definition chunk_c :: document where
  "chunk_c = \<lparr>page_content = ''Our method is new.'', metadata = [(''source'', ''docs/c.pdf'')]\<rparr>"

definition chunk_d :: document where
  "chunk_d = \<lparr>page_content = ''All data are public.'', metadata = [(''source'', ''docs/d.pdf'')]\<rparr>"

text \<open>A pipeline that holds one document and whose ensemble retriever returns the
  given chunks, in this order, for every query.\<close>

definition ready_pipeline :: "document list \<Rightarrow> (unit, unit) pipeline" where
  "ready_pipeline chunks =
     \<lparr>vectorstore = Some (), keyword_retriever = None,
      ensemble_retriever = Some (\<lambda>q. Inr chunks), documents = [chunk_a], embeddings = Some ()\<rparr>"

definition attention_question :: string where
  "attention_question = ''how does self attention work''"

subsection \<open>A library whose constructors succeed\<close>



subsection \<open>Backends that can serve a request\<close>

text \<open>The messages that \<^verbatim>\<open>invoke\<close> sends for a prompt, and the test message of the
  property \<^verbatim>\<open>llm\<close>.\<close>

definition request_messages :: "string \<Rightarrow> chat_message list" where
  "request_messages prompt = [SystemMessage system_prompt, UserMessage prompt]"

definition probe_messages :: "chat_message list" where
  "probe_messages = [UserMessage ''test'']"

text \<open>A backend can serve a request when its call with the request returns a reply.\<close>

definition can_serve :: "'w chat_model option \<Rightarrow> string \<Rightarrow> config \<Rightarrow> 'w \<Rightarrow> bool" where
  "can_serve backend prompt cfg w =
     (case backend of
        None \<Rightarrow> False
      | Some m \<Rightarrow> (case fst (m (request_messages prompt) cfg w) of Inl e \<Rightarrow> False | Inr t \<Rightarrow> True))"

text \<open>The specification: \<^verbatim>\<open>invoke\<close> fails only if neither backend can serve the request.\<close>

definition neither_can_serve :: "'w llm_service \<Rightarrow> string \<Rightarrow> config \<Rightarrow> 'w \<Rightarrow> bool" where
  "neither_can_serve self prompt cfg w =
     (\<not> can_serve (primary_llm self) prompt cfg w \<and> \<not> can_serve (backup_llm self) prompt cfg w)"

text \<open>Three backends without a state of their own: one that answers everything, one
  that answers nothing, and one that answers the test message only.\<close>

definition healthy_model :: "unit chat_model" where
  "healthy_model msgs cfg w = (Inr ''An answer.'', w)"

definition failing_model :: "unit chat_model" where
  "failing_model msgs cfg w = (Inl (ExternalError ''connection refused''), w)"

definition probe_only_model :: "unit chat_model" where
  "probe_only_model msgs cfg w =
     (if msgs = [UserMessage ''test''] then (Inr ''ok'', w)
      else (Inl (ExternalError ''context length exceeded''), w))"

definition no_clients :: "unit chat_clients" where
  "no_clients =
     \<lparr>ChatTogether = Inl (ExternalError ''no API key''), ChatOpenAI = Inl (ExternalError ''no API key'')\<rparr>"

definition attention_prompt :: string where
  "attention_prompt = ''What is attention?''"

definition service_with :: "unit chat_model option \<Rightarrow> unit chat_model option \<Rightarrow> unit llm_service" where
  "service_with p b = \<lparr>primary_llm = p, backup_llm = b\<rparr>"

subsection \<open>Grading and selection\<close>

text \<open>The question that \<^verbatim>\<open>grade_documents\<close> puts into its prompts:
  \<^verbatim>\<open>state["rewritten_question"] or state["question"]\<close>.\<close>

definition grading_question :: "graph_state \<Rightarrow> string" where
  "grading_question state =
     (case state_rewritten_question state of
        None \<Rightarrow> state_question state
      | Some r \<Rightarrow> if r = [] then state_question state else r)"

text \<open>The entry that the grading loop appends for a document and the reply to its
  prompt.\<close>

definition graded_entry :: "string \<Rightarrow> retrieved_doc \<Rightarrow> graded_doc" where
  "graded_entry response doc =
     \<lparr>graded_content = content doc, graded_source = source doc,
      grade = parse_grade response doc,
      original_score = Some (score doc), kept_score = None\<rparr>"

text \<open>The outcomes of the grading calls in the order of the documents, up to the first
  exception: what the Oracle answered for each chunk.\<close>

fun grading_replies ::
  "'w services \<Rightarrow> string \<Rightarrow> retrieved_doc list \<Rightarrow> 'w \<Rightarrow> (error + string) list" where
  "grading_replies sv q [] w = []"
| "grading_replies sv q (doc # docs) w =
     (case llm_invoke sv (grade_prompt q doc) (Some [(''temperature'', Number 0.1)]) w of
        (Inl e, w1) \<Rightarrow> [Inl e]
      | (Inr response, w1) \<Rightarrow> Inr response # grading_replies sv q docs w1)"





text \<open>The selection in the words of the specification: the chunks graded above 0.5,
  or else the top two by descending grade.\<close>

definition above_threshold :: "graded_doc \<Rightarrow> bool" where
  "above_threshold g = float_gt (grade g) (Fin 0.5)"

definition select_per_spec :: "graded_doc list \<Rightarrow> graded_doc list" where
  "select_per_spec gs =
     (if filter above_threshold gs \<noteq> [] then filter above_threshold gs
      else take 2 (py_sort_desc grade gs))"

text \<open>A graded document with a given name and grade.\<close>

definition graded_as :: "string \<Rightarrow> real \<Rightarrow> graded_doc" where
  "graded_as name g =
     \<lparr>graded_content = ''Text of '' @ name, graded_source = name, grade = Fin g,
      original_score = Some (Fin 1), kept_score = None\<rparr>"


text \<open>Services whose state is the number of calls made so far to
  \<^verbatim>\<open>llm_service.invoke\<close>: call number \<open>n\<close> gets the \<open>n\<close>-th of the given outcomes, and
  the last of them from then on. The router sends every question to the vector store.\<close>

definition scripted_services :: "(error + string) list \<Rightarrow> nat services" where
  "scripted_services outcomes =
     \<lparr>llm_invoke = (\<lambda>prompt cfg n. (if n < length outcomes then outcomes ! n else last outcomes, Suc n)),
      router_chain = (\<lambda>question n.
         (Inr \<lparr>route_query_type = Vectorstore, route_reason = ''research''\<rparr>, n)),
      memory_chain = (\<lambda>question history cfg n.
         (Inr \<lparr>response_type = ''history'', response_content = history\<rparr>, n)),
      uuid4 = (\<lambda>n. (''generated-thread-id'', n)),
      format_2f = (\<lambda>g. ''0.00''),
      exc_str = (\<lambda>e. ''error'')\<rparr>"

definition grading_state :: "retrieved_doc list \<Rightarrow> graph_state" where
  "grading_state docs =
     \<lparr>state_question = ''What is attention?'', state_documents = docs,
      state_rewritten_question = None, state_graded_docs = None, state_answer = None,
      state_thread_id = ''t1'', state_relevant_docs = None\<rparr>"


subsection \<open>A request to the knowledge base\<close>

text \<open>The thread id of a request: \<^verbatim>\<open>request.thread_id or str(uuid.uuid4())\<close>.\<close>

definition request_thread :: "'w services \<Rightarrow> QueryRequest \<Rightarrow> 'w \<Rightarrow> string \<times> 'w" where
  "request_thread sv request w =
     (case request_thread_id request of
        None \<Rightarrow> uuid4 sv w
      | Some t \<Rightarrow> if t = [] then uuid4 sv w else (t, w))"

text \<open>The state that \<^verbatim>\<open>query\<close> hands to the graph: the question as asked, the retrieved
  documents, and nothing else yet.\<close>

definition initial_state :: "string \<Rightarrow> retrieved_doc list \<Rightarrow> string \<Rightarrow> graph_state" where
  "initial_state question docs tid =
     \<lparr>state_question = question, state_documents = docs,
      state_rewritten_question = None, state_graded_docs = None, state_answer = None,
      state_thread_id = tid, state_relevant_docs = None\<rparr>"

text \<open>The conversations after a question and its answer are recorded.\<close>

definition recorded :: "conversations \<Rightarrow> string \<Rightarrow> string \<Rightarrow> string \<Rightarrow> conversations" where
  "recorded conv tid question a =
     add_message (add_message conv tid (HumanMessage question)) tid (AIMessage a)"

definition attention_request :: QueryRequest where
  "attention_request = \<lparr>request_question = ''What is attention?'', request_thread_id = Some ''t1''\<rparr>"

definition fresh_app :: "document list \<Rightarrow> (unit, unit, nat) app" where
  "fresh_app chunks = \<lparr>memory = Map.empty, retrieval_pipeline = ready_pipeline chunks, world = 0\<rparr>"

text \<open>An Oracle that rewrites the question and grades the chunk, fails at the synthesis,
  and then answers the fallback prompt; and one that fails from the synthesis on.\<close>

definition recovering_services :: "nat services" where
  "recovering_services =
     scripted_services
       [Inr ''How is attention computed?'', Inr ''0.9'', Inl (ExternalError ''timeout''),
        Inr ''Fallback answer.'']"

definition failing_services :: "nat services" where
  "failing_services =
     scripted_services
       [Inr ''How is attention computed?'', Inr ''0.9'', Inl (ExternalError ''timeout'')]"

text \<open>An Oracle that rewrites the question, grades three chunks with \<^verbatim>\<open>0.2\<close>,
  \<^verbatim>\<open>nan\<close> and \<^verbatim>\<open>0.4\<close>, and answers.\<close>

definition nan_grading_services :: "nat services" where
  "nan_grading_services =
     scripted_services
       [Inr ''How is attention computed?'', Inr ''0.2'', Inr ''nan'', Inr ''0.4'',
        Inr ''An answer.'']"

text \<open>The entries that \<^verbatim>\<open>retrieve\<close> makes of the chunks above for the question
  \<^verbatim>\<open>What is attention?\<close>.\<close>

definition entry_a :: retrieved_doc where
  "entry_a = \<lparr>content = ''This study measures attention.'', source = ''docs/a.pdf'', score = Fin 1\<rparr>"

definition entry_d :: retrieved_doc where
  "entry_d = \<lparr>content = ''All data are public.'', source = ''docs/d.pdf'', score = Fin 1\<rparr>"

definition entry_c :: retrieved_doc where
  "entry_c = \<lparr>content = ''Our method is new.'', source = ''docs/c.pdf'', score = Fin 1\<rparr>"

text \<open>An Oracle that is down for the grading calls only (they are the calls with the
  temperature 0.1): it answers the prompt of the fallback handler (the only call
  with the temperature 0.2 alone) by \<open>Fallback answer.\<close> and every other prompt by
  \<open>Graph answer.\<close>\<close>

definition grading_outage_services :: "nat services" where
  "grading_outage_services =
     \<lparr>llm_invoke = (\<lambda>prompt cfg n.
         (if cfg = Some [(''temperature'', Number 0.1)] then Inl (ExternalError ''timeout'')
          else if cfg = Some [(''temperature'', Number 0.2)] then Inr ''Fallback answer.''
          else Inr ''Graph answer.'', Suc n)),
      router_chain = (\<lambda>question n.
         (Inr \<lparr>route_query_type = Vectorstore, route_reason = ''research''\<rparr>, n)),
      memory_chain = (\<lambda>question history cfg n.
         (Inr \<lparr>response_type = ''history'', response_content = history\<rparr>, n)),
      uuid4 = (\<lambda>n. (''generated-thread-id'', n)),
      format_2f = (\<lambda>g. ''0.00''),
      exc_str = (\<lambda>e. ''error'')\<rparr>"

section \<open>Facts about the Python values\<close>



subsection \<open>The stable descending sort\<close>







text \<open>A list that is already in descending order is left as it is.\<close>

lemma insert_desc_sorted: "list_all (\<lambda>y. \<not> float_lt (k x) (k y)) xs \<Longrightarrow> insert_desc k x xs = x # xs"
  by (cases xs) simp_all

lemma py_sort_desc_sorted: "sorted_desc k xs \<Longrightarrow> py_sort_desc k xs = xs"
proof (induction xs)
  case Nil
  then show ?case by (simp add: py_sort_desc_def)
next
  case (Cons x xs)
  then have "py_sort_desc k xs = xs" by simp
  moreover have "insert_desc k x xs = x # xs"
    using Cons.prems by (simp add: insert_desc_sorted)
  ultimately show ?case by (simp add: py_sort_desc_def)
qed

section \<open>The retrieval pipeline after a reset\<close>

lemma has_documents_reset: "\<not> has_documents (reset self)"
  by (simp add: has_documents_def reset_def)

text \<open>
  C5. Whatever the pipeline held before, after \<^verbatim>\<open>reset()\<close> both \<^verbatim>\<open>retrieve\<close> and its
  alias \<^verbatim>\<open>query\<close> fail with the \<^verbatim>\<open>ValueError\<close> that says no documents are loaded
  (the NotReady condition), \<^verbatim>\<open>has_documents()\<close> is false, and a second \<^verbatim>\<open>reset()\<close>
  changes nothing.
\<close>

theorem reset_then_query_not_ready:
  "retrieve (reset self) question = Inl (ValueError not_ready_message)
   \<and> pipeline_query (reset self) question = Inl (ValueError not_ready_message)
   \<and> \<not> has_documents (reset self)
   \<and> reset (reset self) = reset self"
  by (simp add: retrieve_def pipeline_query_def has_documents_reset) (simp add: reset_def)

section \<open>Threads that were never written\<close>

text \<open>
  C10. For a thread id that is not a key of the conversations, \<^verbatim>\<open>get_messages\<close> returns
  the empty list, so \<^verbatim>\<open>get_thread_status\<close> succeeds with \<open>message_count = 0\<close>,
  \<open>has_history = False\<close> and no messages, while \<^verbatim>\<open>reset_thread\<close> on the same id fails
  with the HTTP error 404 and leaves the conversations as they are. A \<^verbatim>\<open>reset_thread\<close>
  that succeeds removes the key, so a second one on the same id fails with 404.
\<close>

theorem unknown_thread_status_and_reset:
  "(conv tid = None \<longrightarrow>
      get_messages conv tid None = []
      \<and> get_thread_status tid conv =
          Inr \<lparr>status_thread_id = tid, message_count = 0, has_history = False, status_messages = []\<rparr>
      \<and> reset_thread tid conv = (Inl (HTTPException 404 (''Thread '' @ tid @ '' not found'')), conv))
   \<and> (reset_thread tid conv = (Inr r, conv') \<longrightarrow>
        conv' tid = None
        \<and> reset_thread tid conv' = (Inl (HTTPException 404 (''Thread '' @ tid @ '' not found'')), conv'))"
  by (auto simp: get_messages_def get_thread_status_def reset_thread_def thread_exists_def
      clear_thread_def split: if_splits)

theorem unknown_thread_status_and_reset_witness:
  "get_thread_status ''t1'' Map.empty =
     Inr \<lparr>status_thread_id = ''t1'', message_count = 0, has_history = False, status_messages = []\<rparr>
   \<and> fst (reset_thread ''t1'' Map.empty) = Inl (HTTPException 404 ''Thread t1 not found'')
   \<and> fst (reset_thread ''t1'' (add_message Map.empty ''t1'' (HumanMessage ''hello''))) =
       Inr \<lparr>reset_status = ''success'', reset_message = ''Thread reset successfully'',
            reset_thread_id = ''t1''\<rparr>
   \<and> fst (reset_thread ''t1''
            (snd (reset_thread ''t1'' (add_message Map.empty ''t1'' (HumanMessage ''hello''))))) =
       Inl (HTTPException 404 ''Thread t1 not found'')"
proof -
  let ?c = "add_message Map.empty ''t1'' (HumanMessage ''hello'')"
  let ?r = "\<lparr>reset_status = ''success'', reset_message = ''Thread reset successfully'',
            reset_thread_id = ''t1''\<rparr>"
  have e: "(Map.empty :: conversations) ''t1'' = None" by simp
  have a: "get_thread_status ''t1'' Map.empty =
     Inr \<lparr>status_thread_id = ''t1'', message_count = 0, has_history = False, status_messages = []\<rparr>"
    and b: "fst (reset_thread ''t1'' Map.empty) = Inl (HTTPException 404 ''Thread t1 not found'')"
    using unknown_thread_status_and_reset [of Map.empty "''t1''"] e by simp_all
  have f: "fst (reset_thread ''t1'' ?c) = Inr ?r"
    by (simp add: reset_thread_def thread_exists_def add_message_def)
  then have ok: "reset_thread ''t1'' ?c = (Inr ?r, snd (reset_thread ''t1'' ?c))"
    by (metis prod.collapse)
  have d: "fst (reset_thread ''t1'' (snd (reset_thread ''t1'' ?c))) =
       Inl (HTTPException 404 ''Thread t1 not found'')"
    using unknown_thread_status_and_reset [of ?c "''t1''" ?r "snd (reset_thread ''t1'' ?c)"] ok
    by simp
  from a b f d show ?thesis by blast
qed
section \<open>What \<^verbatim>\<open>retrieve\<close> returns\<close>

lemma paragraph_relevant_qualifies: "paragraph_relevant question p = qualifies question p"
  by (simp add: paragraph_relevant_def qualifies_def list_ex_iff)

lemma collect_parts_filter:
  "collect_parts question ps acc = acc @ filter (qualifies question) ps"
  by (induction ps arbitrary: acc) (simp_all add: paragraph_relevant_qualifies)

lemma collect_content_entries:
  "collect_content question docs acc = acc @ snippet_entries question docs"
  by (induction docs arbitrary: acc)
     (simp_all add: snippet_entries_def snippet_entry_def kept_paragraphs_def
        collect_parts_filter Let_def)

lemma retrieve_result:
  assumes "has_documents self" and "ensemble_retriever self = Some r" and "r question = Inr docs"
  shows "retrieve self question =
           Inr (if snippet_entries question docs = []
                then (case docs of [] \<Rightarrow> [] | first_doc # rest \<Rightarrow> [introduction_entry first_doc])
                else snippet_entries question docs)"
  using assms
  by (simp add: retrieve_def collect_content_entries introduction_entry_def Let_def
      split: list.splits)

text \<open>
  C9. When the pipeline has documents and its ensemble retriever returns the chunks
  \<open>docs\<close> for the question, \<^verbatim>\<open>retrieve\<close> returns, for each chunk that has a qualifying
  paragraph, one entry whose content is the qualifying paragraphs of that chunk joined
  by blank lines (a paragraph qualifies when it shares more than one word with the
  question or contains one of the nine research keywords); chunks without a qualifying
  paragraph are left out; and if no chunk has one, the result is the single entry with
  the first 1000 characters of the first chunk. So the result is not empty whenever the
  retriever returned a chunk.
\<close>

theorem retrieve_keeps_qualifying_paragraphs:
  assumes "has_documents self" and "ensemble_retriever self = Some r" and "r question = Inr docs"
  shows "retrieve self question =
           Inr (if snippet_entries question docs = []
                then (case docs of [] \<Rightarrow> [] | first_doc # rest \<Rightarrow> [introduction_entry first_doc])
                else snippet_entries question docs)
         \<and> (docs \<noteq> [] \<longrightarrow> (\<exists>rs. retrieve self question = Inr rs \<and> rs \<noteq> []))
         \<and> length research_terms = 9"
proof -
  have "docs \<noteq> [] \<Longrightarrow>
          (if snippet_entries question docs = []
           then (case docs of [] \<Rightarrow> [] | first_doc # rest \<Rightarrow> [introduction_entry first_doc])
           else snippet_entries question docs) \<noteq> []"
    by (cases docs) simp_all
  moreover have "length research_terms = 9"
    by (simp add: research_terms_def)
  ultimately show ?thesis
    using retrieve_result [OF assms] by simp
qed

lemma entries_a_b:
  "snippet_entries attention_question [chunk_a, chunk_b] =
     [\<lparr>content = ''This study measures attention.'' @ NL @ NL @ ''Self attention heads matter.'',
       source = ''docs/a.pdf'', score = Fin 1\<rparr>]"
  by code_simp

lemma entries_b: "snippet_entries attention_question [chunk_b] = []"
  by code_simp

lemma ready_pipeline_has_documents: "has_documents (ready_pipeline chunks)"
  by (simp add: has_documents_def ready_pipeline_def)

theorem retrieve_keeps_qualifying_paragraphs_witness:
  "has_documents (ready_pipeline [chunk_a, chunk_b])
   \<and> retrieve (ready_pipeline [chunk_a, chunk_b]) attention_question =
       Inr [\<lparr>content = ''This study measures attention.'' @ NL @ NL @ ''Self attention heads matter.'',
             source = ''docs/a.pdf'', score = Fin 1\<rparr>]
   \<and> retrieve (ready_pipeline [chunk_b]) attention_question =
       Inr [\<lparr>content = ''Nothing of interest here.'', source = ''Unknown source'', score = Fin 1\<rparr>]"
proof -
  have r: "ensemble_retriever (ready_pipeline chunks) = Some (\<lambda>q. Inr chunks)" for chunks
    by (simp add: ready_pipeline_def)
  have "retrieve (ready_pipeline [chunk_a, chunk_b]) attention_question =
       Inr [\<lparr>content = ''This study measures attention.'' @ NL @ NL @ ''Self attention heads matter.'',
             source = ''docs/a.pdf'', score = Fin 1\<rparr>]"
    using retrieve_keeps_qualifying_paragraphs
            [OF ready_pipeline_has_documents r refl, of "[chunk_a, chunk_b]" attention_question]
    by (simp add: entries_a_b)
  moreover have "retrieve (ready_pipeline [chunk_b]) attention_question =
       Inr [introduction_entry chunk_b]"
    using retrieve_keeps_qualifying_paragraphs
            [OF ready_pipeline_has_documents r refl, of "[chunk_b]" attention_question]
    by (simp add: entries_b)
  moreover have "introduction_entry chunk_b =
       \<lparr>content = ''Nothing of interest here.'', source = ''Unknown source'', score = Fin 1\<rparr>"
    by (simp add: introduction_entry_def chunk_b_def metadata_get_def)
  ultimately show ?thesis
    using ready_pipeline_has_documents by simp
qed

text \<open>Every entry that \<^verbatim>\<open>retrieve\<close> returns has the score 1.0.\<close>

lemma retrieve_scores_constant:
  "retrieve self question = Inr rs \<Longrightarrow> list_all (\<lambda>e. score e = Fin 1) rs"
proof -
  assume a: "retrieve self question = Inr rs"
  then obtain r docs where h: "has_documents self" "ensemble_retriever self = Some r"
      "r question = Inr docs"
    by (auto simp: retrieve_def split: if_splits option.splits sum.splits)
  have "list_all (\<lambda>e. score e = Fin 1) (snippet_entries question docs)"
    by (simp add: snippet_entries_def snippet_entry_def list_all_iff)
  then show ?thesis
    using a retrieve_result [OF h]
    by (auto simp: introduction_entry_def split: if_splits list.splits)
qed

text \<open>
  C1. The score of an entry is the literal \<open>1.0\<close>, whatever the retriever computed
  (\<open>retrieve_scores_constant\<close> above): the two chunks below are returned at different
  ranks of the fused ranking, and both entries carry the score 1.0.
\<close>

theorem retrieve_score_is_the_constant_one:
  "retrieve (ready_pipeline [chunk_a, chunk_c]) attention_question =
     Inr [\<lparr>content = ''This study measures attention.'' @ NL @ NL @ ''Self attention heads matter.'',
           source = ''docs/a.pdf'', score = Fin 1\<rparr>,
          \<lparr>content = ''Our method is new.'', source = ''docs/c.pdf'', score = Fin 1\<rparr>]"
  by code_simp
section \<open>Rebuilding the index\<close>




section \<open>The backend that serves a call of \<^verbatim>\<open>invoke\<close>\<close>

lemma invoke_unfold:
  "invoke clients prompt cfg (self, w) =
     (case llm clients self w of
        (Inl e, s1, w1) \<Rightarrow> (Inl e, s1, w1)
      | (Inr m, s1, w1) \<Rightarrow>
          (fst (m (request_messages prompt) (case cfg of None \<Rightarrow> [] | Some c \<Rightarrow> c) w1), s1,
           snd (m (request_messages prompt) (case cfg of None \<Rightarrow> [] | Some c \<Rightarrow> c) w1)))"
  by (simp add: invoke_def request_messages_def Let_def split: prod.splits sum.splits)

text \<open>
  The outcome of \<^verbatim>\<open>invoke\<close>, case by case. With \<open>s1\<close> the service after the set-up that
  the property \<^verbatim>\<open>llm\<close> repeats when no backend is configured: if the primary backend
  answers the test message, the outcome is the outcome of the primary backend on the
  request; if it fails the test message, or there is none, the outcome is the outcome
  of the backup backend on the request, or the \<^verbatim>\<open>RuntimeError\<close> when there is no
  backup backend.
\<close>

lemma invoke_outcome:
  "(let s1 = (if primary_llm self = None \<and> backup_llm self = None
              then setup_llm clients self else self);
        msgs = request_messages prompt;
        icfg = (case cfg of None \<Rightarrow> [] | Some c \<Rightarrow> c)
    in (primary_llm s1 = Some p \<and> p probe_messages [] w = (Inr t, w1) \<longrightarrow>
          invoke clients prompt cfg (self, w) = (fst (p msgs icfg w1), s1, snd (p msgs icfg w1)))
     \<and> (primary_llm s1 = Some p \<and> p probe_messages [] w = (Inl e, w1) \<and> backup_llm s1 = Some b \<longrightarrow>
          invoke clients prompt cfg (self, w) = (fst (b msgs icfg w1), s1, snd (b msgs icfg w1)))
     \<and> (primary_llm s1 = Some p \<and> p probe_messages [] w = (Inl e, w1) \<and> backup_llm s1 = None \<longrightarrow>
          invoke clients prompt cfg (self, w) = (Inl (RuntimeError ''No LLM service available''), s1, w1))
     \<and> (primary_llm s1 = None \<and> backup_llm s1 = Some b \<longrightarrow>
          invoke clients prompt cfg (self, w) = (fst (b msgs icfg w), s1, snd (b msgs icfg w)))
     \<and> (primary_llm s1 = None \<and> backup_llm s1 = None \<longrightarrow>
          invoke clients prompt cfg (self, w) = (Inl (RuntimeError ''No LLM service available''), s1, w)))"
  unfolding invoke_unfold Let_def
  by (simp add: llm_def llm_fallback_def probe_messages_def Let_def)

text \<open>
  C6. On the code the claim fails where the primary backend answers the test message
  and then fails on the request: the backup backend below answers every request, and
  \<^verbatim>\<open>invoke\<close> raises the exception of the primary backend without a call to the
  backup. Where the primary backend fails the test message already, the same service
  does fall back and returns the reply of the backup.
\<close>

theorem invoke_raises_although_backup_can_serve:
  "fst (invoke no_clients attention_prompt None
          (service_with (Some probe_only_model) (Some healthy_model), ())) =
     Inl (ExternalError ''context length exceeded'')
   \<and> can_serve (Some healthy_model) attention_prompt [] ()
   \<and> \<not> neither_can_serve (service_with (Some probe_only_model) (Some healthy_model))
          attention_prompt [] ()
   \<and> fst (invoke no_clients attention_prompt None
            (service_with (Some failing_model) (Some healthy_model), ())) = Inr ''An answer.''"
  by (simp add: invoke_def llm_def llm_fallback_def service_with_def probe_only_model_def
      healthy_model_def failing_model_def can_serve_def neither_can_serve_def
      request_messages_def)

section \<open>Grading\<close>

lemma grade_loop_replies:
  "fst (grade_loop sv q docs acc w) =
     (if list_all (\<lambda>r. \<not> isl r) (grading_replies sv q docs w)
      then Inr (acc @ map2 graded_entry (map projr (grading_replies sv q docs w)) docs)
      else Inl (projl (last (grading_replies sv q docs w))))"
proof (induction docs arbitrary: acc w)
  case Nil
  then show ?case by simp
next
  case (Cons doc docs)
  show ?case
  proof (cases "llm_invoke sv (grade_prompt q doc) (Some [(''temperature'', Number 0.1)]) w")
    case (Pair res w1)
    show ?thesis
    proof (cases res)
      case (Inl e)
      with Pair show ?thesis by simp
    next
      case (Inr response)
      with Pair Cons.IH [of "acc @ [graded_entry response doc]" w1] show ?thesis
        by (auto simp: graded_entry_def)
    qed
  qed
qed



lemma grade_documents_graded:
  "state_graded_docs (fst (grade_documents sv state w)) =
     Some (let rs = grading_replies sv (grading_question state) (state_documents state) w in
           if list_all (\<lambda>r. \<not> isl r) rs
           then py_sort_desc grade (map2 graded_entry (map projr rs) (state_documents state))
           else map score_as_grade (state_documents state))"
proof -
  let ?q = "grading_question state"
  let ?docs = "state_documents state"
  obtain res w1 where g: "grade_loop sv ?q ?docs [] w = (res, w1)"
    by (cases "grade_loop sv ?q ?docs [] w")
  have r: "res = fst (grade_loop sv ?q ?docs [] w)" using g by simp
  show ?thesis
  proof (cases "list_all (\<lambda>r. \<not> isl r) (grading_replies sv ?q ?docs w)")
    case True
    then have "res = Inr (map2 graded_entry (map projr (grading_replies sv ?q ?docs w)) ?docs)"
      using r grade_loop_replies [of sv ?q ?docs "[]" w] by simp
    with g True show ?thesis
      by (simp add: grade_documents_def grading_question_def Let_def)
  next
    case False
    then have "res = Inl (projl (last (grading_replies sv ?q ?docs w)))"
      using r grade_loop_replies [of sv ?q ?docs "[]" w] by simp
    with g False show ?thesis
      by (simp add: grade_documents_def grading_question_def Let_def)
  qed
qed







section \<open>The range of the grades\<close>








section \<open>Selection\<close>

lemma above_threshold_eq: "above_threshold = (\<lambda>doc. float_gt (grade doc) (Fin 0.5))"
  by (rule ext) (simp add: above_threshold_def)

lemma select_relevant_cases:
  "select_relevant gs =
     (if \<exists>g \<in> set gs. above_threshold g then filter above_threshold gs else take 2 gs)"
  by (auto simp: select_relevant_def above_threshold_eq Let_def filter_empty_conv)

text \<open>
  The selection of \<^verbatim>\<open>generate_answer\<close> is the documents graded above 0.5 in the order
  of the graded list, or, if there is none, the first two documents of the graded list.
  On a list in descending order of the grades this is the selection of the
  specification, whose second case is the top two by grade. \<^verbatim>\<open>generate_answer\<close>
  stores the selection as \<^verbatim>\<open>relevant_docs\<close> when the Oracle returns the answer. For the
  grades 0.9, 0.3, 0.1 the selection is the first document alone, and for the grades
  0.3, 0.2 it is both.
\<close>

lemma selection_of_generate_answer:
  "select_relevant gs =
     (if \<exists>g \<in> set gs. above_threshold g then filter above_threshold gs else take 2 gs)
   \<and> (sorted_desc grade gs \<longrightarrow> select_relevant gs = select_per_spec gs)
   \<and> (state_graded_docs state = Some gs
        \<and> llm_invoke sv (answer_prompt (state_question state)
                            (answer_context sv (select_relevant gs)))
             (Some [(''temperature'', Number 0.2), (''max_tokens'', Number 1000)]) w = (Inr a, w1)
        \<longrightarrow> generate_answer sv state w =
              (Inr (state\<lparr>state_answer := Some a,
                          state_relevant_docs := Some (select_relevant gs)\<rparr>), w1))
   \<and> (grade g1 = Fin 0.9 \<and> grade g2 = Fin 0.3 \<and> grade g3 = Fin 0.1
        \<longrightarrow> select_relevant [g1, g2, g3] = [g1])
   \<and> (grade g1 = Fin 0.3 \<and> grade g2 = Fin 0.2 \<longrightarrow> select_relevant [g1, g2] = [g1, g2])"
proof -
  have "sorted_desc grade gs \<Longrightarrow> select_relevant gs = select_per_spec gs"
    by (simp add: select_relevant_def select_per_spec_def above_threshold_eq Let_def
        py_sort_desc_sorted)
  moreover have "state_graded_docs state = Some gs
        \<and> llm_invoke sv (answer_prompt (state_question state)
                            (answer_context sv (select_relevant gs)))
             (Some [(''temperature'', Number 0.2), (''max_tokens'', Number 1000)]) w = (Inr a, w1)
        \<Longrightarrow> generate_answer sv state w =
              (Inr (state\<lparr>state_answer := Some a,
                          state_relevant_docs := Some (select_relevant gs)\<rparr>), w1)"
    by (simp add: generate_answer_def Let_def)
  moreover have "grade g1 = Fin 0.9 \<and> grade g2 = Fin 0.3 \<and> grade g3 = Fin 0.1
        \<Longrightarrow> select_relevant [g1, g2, g3] = [g1]"
    by (simp add: select_relevant_def float_gt_def float_lt_def Let_def)
  moreover have "grade g1 = Fin 0.3 \<and> grade g2 = Fin 0.2 \<Longrightarrow> select_relevant [g1, g2] = [g1, g2]"
    by (simp add: select_relevant_def float_gt_def float_lt_def Let_def)
  ultimately show ?thesis
    using select_relevant_cases [of gs] by blast
qed

text \<open>
  C2. On the code the claim fails where the graded list is not in descending order: the
  fallback takes the first two documents of the list, whatever their grades. For the
  grades 0.2, 0.1, 0.4 it selects the documents graded 0.2 and 0.1, and the top two by
  grade are those graded 0.4 and 0.2. Such a list reaches \<^verbatim>\<open>generate_answer\<close> through
  \<^verbatim>\<open>query\<close> when a reply of the Oracle is \<^verbatim>\<open>nan\<close>: for the replies \<^verbatim>\<open>0.2\<close>, \<^verbatim>\<open>nan\<close>,
  \<^verbatim>\<open>0.4\<close> the graded list has the grades 0.2, NaN, 0.4, and the answer cites the chunks
  graded 0.2 and NaN and leaves out the chunk graded 0.4. (Python's sort returns these
  lists too: it reverses the grades to 0.4, NaN, 0.2, finds one ascending run, since
  neither \<^verbatim>\<open>nan < 0.4\<close> nor \<^verbatim>\<open>0.2 < nan\<close> holds, and reverses it back; the same
  happens to the two relevance scores 0.2, NaN of the references.)
\<close>

theorem first_two_are_not_the_top_two:
  "select_relevant [graded_as ''a.pdf'' 0.2, graded_as ''b.pdf'' 0.1, graded_as ''c.pdf'' 0.4] =
     [graded_as ''a.pdf'' 0.2, graded_as ''b.pdf'' 0.1]
   \<and> select_per_spec [graded_as ''a.pdf'' 0.2, graded_as ''b.pdf'' 0.1, graded_as ''c.pdf'' 0.4] =
     [graded_as ''c.pdf'' 0.4, graded_as ''a.pdf'' 0.2]
   \<and> map_sum id state_relevant_docs
        (fst (generate_answer (scripted_services [Inr ''An answer.''])
                ((grading_state [])\<lparr>state_graded_docs :=
                    Some [graded_as ''a.pdf'' 0.2, graded_as ''b.pdf'' 0.1, graded_as ''c.pdf'' 0.4]\<rparr>)
                0)) =
     Inr (Some [graded_as ''a.pdf'' 0.2, graded_as ''b.pdf'' 0.1])
   \<and> retrieve (ready_pipeline [chunk_a, chunk_c, chunk_d]) ''What is attention?'' =
       Inr [entry_a, entry_c, entry_d]
   \<and> map_sum id (\<lambda>s. map_option (map grade) (state_graded_docs s))
        (fst (process_state nan_grading_services
                (initial_state ''What is attention?'' [entry_a, entry_c, entry_d] ''t1'') 0)) =
       Inr (Some [Fin 0.2, NaN, Fin 0.4])
   \<and> fst (query nan_grading_services attention_request (fresh_app [chunk_a, chunk_c, chunk_d])) =
       Inr \<lparr>answer = ''An answer.'',
            references =
              [\<lparr>ref_source = ''a.pdf'', relevance_score = Fin 0.2,
                 snippet = ''This study measures attention.''\<rparr>,
               \<lparr>ref_source = ''c.pdf'', relevance_score = NaN, snippet = ''Our method is new.''\<rparr>],
            thread_id = ''t1''\<rparr>"
  by code_simp

section \<open>The fallback of a knowledge-base query\<close>

lemma identity_copy: "map (\<lambda>doc. \<lparr>content = content doc, source = source doc, score = score doc\<rparr>) docs = docs"
  by (induction docs) simp_all

lemma process_state_raises_in_synthesis:
  "process_state sv state w = (Inl e, w') \<Longrightarrow>
     \<exists>prompt w0. llm_invoke sv prompt
                    (Some [(''temperature'', Number 0.2), (''max_tokens'', Number 1000)]) w0 = (Inl e, w')"
  by (auto simp: process_state_def generate_answer_def grade_documents_def Let_def
      split: prod.splits option.splits sum.splits)

lemma vectorstore_branch_fallback:
  assumes "has_documents (retrieval_pipeline ap)"
    and "retrieve (retrieval_pipeline ap) question = Inr docs" and "docs \<noteq> []"
    and "process_state sv (initial_state question docs tid) (world ap) = (Inl graph_error, w2)"
  shows "vectorstore_branch sv question tid ap =
           (case handle_research_fallback sv question docs tid (ap\<lparr>world := w2\<rparr>) of
              (Inl e, ap1) \<Rightarrow> (Inl (http_400 sv e), ap1)
            | (Inr r, ap1) \<Rightarrow> (Inr r, ap1))"
  using assms
  by (simp add: vectorstore_branch_def graph_or_fallback_def initial_state_def identity_copy Let_def)

lemma query_falls_back:
  assumes "request_thread sv request (world ap) = (tid, w0)"
    and "router_chain sv (request_question request) w0 = (Inr route, w1)"
    and "route_query_type route = Vectorstore"
    and "has_documents (retrieval_pipeline ap)"
    and "retrieve (retrieval_pipeline ap) (request_question request) = Inr docs" and "docs \<noteq> []"
    and "process_state sv (initial_state (request_question request) docs tid) w1 = (Inl graph_error, w2)"
  shows "query sv request ap =
           (case llm_invoke sv (fallback_prompt (request_question request) docs)
                   (Some [(''temperature'', Number 0.2)]) w2 of
              (Inr a, w3) \<Rightarrow>
                (Inr \<lparr>answer = a, references = map fallback_reference docs, thread_id = tid\<rparr>,
                 ap\<lparr>world := w3, memory := recorded (memory ap) tid (request_question request) a\<rparr>)
            | (Inl e, w3) \<Rightarrow> (Inl (http_400 sv (http_400 sv e)), ap\<lparr>world := w3\<rparr>))
         \<and> (\<exists>prompt w. llm_invoke sv prompt
                (Some [(''temperature'', Number 0.2), (''max_tokens'', Number 1000)]) w = (Inl graph_error, w2))"
proof -
  let ?q = "request_question request"
  let ?ap1 = "ap\<lparr>world := w1\<rparr>"
  have vb: "vectorstore_branch sv ?q tid ?ap1 =
           (case handle_research_fallback sv ?q docs tid (?ap1\<lparr>world := w2\<rparr>) of
              (Inl e, ap1) \<Rightarrow> (Inl (http_400 sv e), ap1)
            | (Inr r, ap1) \<Rightarrow> (Inr r, ap1))"
    using assms(4-7) by (intro vectorstore_branch_fallback) simp_all
  have q: "query sv request ap =
             (case vectorstore_branch sv ?q tid ?ap1 of
                (Inl e, ap2) \<Rightarrow> (Inl (http_400 sv e), ap2)
              | (Inr r, ap2) \<Rightarrow> (Inr r, ap2))"
    using assms(1-3) by (simp add: query_def request_thread_def Let_def)
  have "query sv request ap =
           (case llm_invoke sv (fallback_prompt ?q docs) (Some [(''temperature'', Number 0.2)]) w2 of
              (Inr a, w3) \<Rightarrow>
                (Inr \<lparr>answer = a, references = map fallback_reference docs, thread_id = tid\<rparr>,
                 ap\<lparr>world := w3, memory := recorded (memory ap) tid ?q a\<rparr>)
            | (Inl e, w3) \<Rightarrow> (Inl (http_400 sv (http_400 sv e)), ap\<lparr>world := w3\<rparr>))"
    unfolding q vb
    by (simp add: handle_research_fallback_def recorded_def Let_def split: prod.splits sum.splits)
  with process_state_raises_in_synthesis [OF assms(7)] show ?thesis by blast
qed

lemma grade_documents_state:
  "fst (grade_documents sv state w) =
     state\<lparr>state_graded_docs := state_graded_docs (fst (grade_documents sv state w))\<rparr>"
  by (simp add: grade_documents_def Let_def split: prod.splits sum.splits)

lemma grading_failure_stays_in_the_graph:
  assumes "rewrite_question sv state w = (s1, wa)"
    and "\<not> list_all (\<lambda>r. \<not> isl r) (grading_replies sv (grading_question s1) (state_documents s1) wa)"
  shows "process_state sv state w =
           generate_answer sv (s1\<lparr>state_graded_docs := Some (map score_as_grade (state_documents s1))\<rparr>)
             (snd (grade_documents sv s1 wa))"
proof -
  have "state_graded_docs (fst (grade_documents sv s1 wa)) = Some (map score_as_grade (state_documents s1))"
    using grade_documents_graded [of sv s1 wa] assms(2) by (simp add: Let_def)
  then have "fst (grade_documents sv s1 wa) =
      s1\<lparr>state_graded_docs := Some (map score_as_grade (state_documents s1))\<rparr>"
    using grade_documents_state [of sv s1 wa] by simp
  then show ?thesis
    using assms(1) by (simp add: process_state_def case_prod_beta)
qed

text \<open>
  C7, as the code has it. A request that the router sends to the vector store, on a
  pipeline with documents whose \<^verbatim>\<open>retrieve\<close> returns the entries \<open>docs\<close>, and whose
  graph processing raises: \<^verbatim>\<open>query\<close> then calls the Oracle once more, with the fallback
  prompt built from the question as asked and all the retrieved entries. If that call
  returns, the request succeeds with its text as the answer and one reference for each
  retrieved entry (its retrieval score as relevance), and question and answer are
  recorded in the thread; if that call raises too, the request fails with the HTTP
  error 400. The exception of the graph is the one of its synthesis call. An exception
  of a grading call does not leave the graph: \<^verbatim>\<open>grade_documents\<close> catches it and grades
  every document with its score, and the graph goes on to its own synthesis.
\<close>

theorem graph_failure_falls_back_to_single_shot:
  "(request_thread sv request (world ap) = (tid, w0)
      \<and> router_chain sv (request_question request) w0 = (Inr route, w1)
      \<and> route_query_type route = Vectorstore
      \<and> has_documents (retrieval_pipeline ap)
      \<and> retrieve (retrieval_pipeline ap) (request_question request) = Inr docs \<and> docs \<noteq> []
      \<and> process_state sv (initial_state (request_question request) docs tid) w1 = (Inl graph_error, w2)
    \<longrightarrow>
      query sv request ap =
        (case llm_invoke sv (fallback_prompt (request_question request) docs)
                (Some [(''temperature'', Number 0.2)]) w2 of
           (Inr a, w3) \<Rightarrow>
             (Inr \<lparr>answer = a, references = map fallback_reference docs, thread_id = tid\<rparr>,
              ap\<lparr>world := w3, memory := recorded (memory ap) tid (request_question request) a\<rparr>)
         | (Inl e, w3) \<Rightarrow> (Inl (http_400 sv (http_400 sv e)), ap\<lparr>world := w3\<rparr>))
      \<and> (\<exists>prompt w. llm_invoke sv prompt
             (Some [(''temperature'', Number 0.2), (''max_tokens'', Number 1000)]) w = (Inl graph_error, w2)))
   \<and> (rewrite_question sv state wq = (s1, wa)
        \<and> \<not> list_all (\<lambda>r. \<not> isl r) (grading_replies sv (grading_question s1) (state_documents s1) wa)
      \<longrightarrow>
        process_state sv state wq =
          generate_answer sv (s1\<lparr>state_graded_docs := Some (map score_as_grade (state_documents s1))\<rparr>)
            (snd (grade_documents sv s1 wa)))"
  using query_falls_back [of sv request ap tid w0 route w1 docs graph_error w2]
    grading_failure_stays_in_the_graph [of sv state wq s1 wa]
  by blast

theorem graph_failure_falls_back_to_single_shot_witness:
  "fst (process_state recovering_services (initial_state ''What is attention?'' [entry_c] ''t1'') 0) =
     Inl (ExternalError ''timeout'')
   \<and> fst (query recovering_services attention_request (fresh_app [chunk_c])) =
       Inr \<lparr>answer = ''Fallback answer.'',
            references = [\<lparr>ref_source = ''c.pdf'', relevance_score = Fin 1,
                           snippet = ''Our method is new.''\<rparr>],
            thread_id = ''t1''\<rparr>
   \<and> fst (query failing_services attention_request (fresh_app [chunk_c])) =
       Inl (HTTPException 400 ''error'')
   \<and> grading_replies grading_outage_services ''Graph answer.'' [entry_c] 1 =
       [Inl (ExternalError ''timeout'')]
   \<and> map_sum id state_answer
        (fst (process_state grading_outage_services
                (initial_state ''What is attention?'' [entry_c] ''t1'') 0)) =
       Inr (Some ''Graph answer.'')"
proof -
  let ?q = "''What is attention?''"
  let ?route = "\<lparr>route_query_type = Vectorstore, route_reason = ''research''\<rparr>"
  note falls_back = graph_failure_falls_back_to_single_shot [THEN conjunct1, rule_format, THEN conjunct1]
  note stays = graph_failure_falls_back_to_single_shot [THEN conjunct2, rule_format]
  have rq: "request_question attention_request = ?q"
    by (simp add: attention_request_def)
  have t: "request_thread sv attention_request (world (fresh_app [chunk_c])) = (''t1'', 0)" for sv :: "nat services"
    by (simp add: request_thread_def attention_request_def fresh_app_def)
  have r1: "router_chain recovering_services (request_question attention_request) 0 = (Inr ?route, 0)"
    by (simp add: recovering_services_def scripted_services_def)
  have r2: "router_chain failing_services (request_question attention_request) 0 = (Inr ?route, 0)"
    by (simp add: failing_services_def scripted_services_def)
  have v: "route_query_type ?route = Vectorstore" by simp
  have h: "has_documents (retrieval_pipeline (fresh_app [chunk_c]))"
    by (simp add: fresh_app_def ready_pipeline_has_documents)
  have re: "retrieve (retrieval_pipeline (fresh_app [chunk_c])) (request_question attention_request) = Inr [entry_c]"
    by code_simp
  have ne: "[entry_c] \<noteq> []" by simp
  have p1: "process_state recovering_services
              (initial_state (request_question attention_request) [entry_c] ''t1'') 0 =
            (Inl (ExternalError ''timeout''), 3)"
    by code_simp
  have p2: "process_state failing_services
              (initial_state (request_question attention_request) [entry_c] ''t1'') 0 =
            (Inl (ExternalError ''timeout''), 3)"
    by code_simp
  have refs: "fallback_reference entry_c =
      \<lparr>ref_source = ''c.pdf'', relevance_score = Fin 1, snippet = ''Our method is new.''\<rparr>"
    by code_simp
  have a: "fst (process_state recovering_services (initial_state ?q [entry_c] ''t1'') 0) =
     Inl (ExternalError ''timeout'')"
    using p1 unfolding rq by simp
  have b: "fst (query recovering_services attention_request (fresh_app [chunk_c])) =
       Inr \<lparr>answer = ''Fallback answer.'',
            references = [\<lparr>ref_source = ''c.pdf'', relevance_score = Fin 1,
                           snippet = ''Our method is new.''\<rparr>],
            thread_id = ''t1''\<rparr>"
    using falls_back [OF conjI [OF t conjI [OF r1 conjI [OF v conjI [OF h conjI [OF re conjI [OF ne p1]]]]]]]
    by (simp add: recovering_services_def scripted_services_def refs)
  have c: "fst (query failing_services attention_request (fresh_app [chunk_c])) =
       Inl (HTTPException 400 ''error'')"
    using falls_back [OF conjI [OF t conjI [OF r2 conjI [OF v conjI [OF h conjI [OF re conjI [OF ne p2]]]]]]]
    by (simp add: failing_services_def scripted_services_def http_400_def)
  let ?s1 = "(initial_state ?q [entry_c] ''t1'')\<lparr>state_rewritten_question := Some ''Graph answer.''\<rparr>"
  have rw: "rewrite_question grading_outage_services (initial_state ?q [entry_c] ''t1'') 0 = (?s1, 1)"
    by code_simp
  have gq: "grading_question ?s1 = ''Graph answer.''" "state_documents ?s1 = [entry_c]"
    by (simp_all add: grading_question_def initial_state_def)
  have d: "grading_replies grading_outage_services ''Graph answer.'' [entry_c] 1 =
       [Inl (ExternalError ''timeout'')]"
    by code_simp
  then have raised: "\<not> list_all (\<lambda>r. \<not> isl r)
       (grading_replies grading_outage_services (grading_question ?s1) (state_documents ?s1) 1)"
    unfolding gq by simp
  have gen: "map_sum id state_answer
        (fst (generate_answer grading_outage_services
                (?s1\<lparr>state_graded_docs := Some (map score_as_grade (state_documents ?s1))\<rparr>)
                (snd (grade_documents grading_outage_services ?s1 1)))) =
       Inr (Some ''Graph answer.'')"
    by code_simp
  have e: "map_sum id state_answer
        (fst (process_state grading_outage_services (initial_state ?q [entry_c] ''t1'') 0)) =
       Inr (Some ''Graph answer.'')"
    using stays [OF conjI [OF rw raised]] gen by simp
  from a b c d e show ?thesis
    by - (intro conjI, assumption+)
qed

text \<open>
  C7 as stated fails for a failure of the grading: the Oracle below raises on every
  grading call and answers every other call. The graph does not raise, the request is
  answered by the synthesis of the graph over the chunk graded with its score, and the
  fallback handler, which would have returned \<open>Fallback answer.\<close>, is not called.
\<close>

theorem grading_outage_does_not_reach_the_fallback:
  "grading_replies grading_outage_services ''Graph answer.'' [entry_c] 1 =
     [Inl (ExternalError ''timeout'')]
   \<and> map_sum id state_graded_docs
        (fst (process_state grading_outage_services
                (initial_state ''What is attention?'' [entry_c] ''t1'') 0)) =
       Inr (Some [score_as_grade entry_c])
   \<and> fst (query grading_outage_services attention_request (fresh_app [chunk_c])) =
       Inr \<lparr>answer = ''Graph answer.'',
            references = [\<lparr>ref_source = ''c.pdf'', relevance_score = Fin 1,
                           snippet = ''Our method is new.''\<rparr>],
            thread_id = ''t1''\<rparr>
   \<and> world (snd (query grading_outage_services attention_request (fresh_app [chunk_c]))) = 3
   \<and> fst (handle_research_fallback grading_outage_services ''What is attention?'' [entry_c] ''t1''
            (fresh_app [chunk_c])) =
       Inr \<lparr>answer = ''Fallback answer.'',
            references = [\<lparr>ref_source = ''c.pdf'', relevance_score = Fin 1,
                           snippet = ''Our method is new.''\<rparr>],
            thread_id = ''t1''\<rparr>"
  by code_simp

end
